theory Spec2Isabelle
  imports Main "HOL-Library.Sublist"
begin

text \<open>
  The server is \<^verbatim>\<open>server.js\<close>; line numbers are those of its first copy in the source.
  The second copy has the same route, schema and subscription handlers, and differs in
  what it logs for a notification and in how it closes the store on \<^verbatim>\<open>SIGTERM\<close>.
\<close>

section \<open>The event store\<close>

text \<open>
  \<^verbatim>\<open>urlEventSchema\<close> (server.js, lines 117--123) declares three String fields and two
  Date fields whose default is \<^verbatim>\<open>Date.now\<close>. Dates are milliseconds, as \<^verbatim>\<open>Date.now()\<close>
  returns them. No field is required, and the lookup key is stored as the notification
  gives it: a document whose notification had no transaction hash has none (\<open>None\<close>).
\<close>

record url_event =
  userAddress :: string
  url :: string
  transactionHash :: "string option"
  timestamp :: int
  processedAt :: int

text \<open>
  \<^verbatim>\<open>new UrlEvent({userAddress, url, transactionHash})\<close>: the two Date fields are not
  given, so both take their default, the clock reading at construction.
\<close>

definition new_UrlEvent :: "string \<Rightarrow> string \<Rightarrow> string option \<Rightarrow> int \<Rightarrow> url_event" where
  "new_UrlEvent user u txHash date_now =
     \<lparr>userAddress = user, url = u, transactionHash = txHash,
      timestamp = date_now, processedAt = date_now\<rparr>"

text \<open>
  The collection is the list of its documents in insertion order. \<^verbatim>\<open>save()\<close> of a new
  document inserts it; the collection has no unique index, so nothing is rejected or
  replaced for carrying a hash that is already stored.
\<close>

type_synonym collection = "url_event list"

definition save :: "url_event \<Rightarrow> collection \<Rightarrow> collection" where
  "save doc docs = docs @ [doc]"

text \<open>
  The filter \<^verbatim>\<open>{ transactionHash }\<close> is built from the request body, where the field may
  be absent (\<open>None\<close>). The store receives an undefined filter value as null, which selects
  the documents whose field is null or missing; a string selects the documents that carry
  that string.
\<close>

fun matches :: "string option \<Rightarrow> url_event \<Rightarrow> bool" where
  "matches None doc = (transactionHash doc = None)"
| "matches (Some h) doc = (transactionHash doc = Some h)"

text \<open>\<^verbatim>\<open>UrlEvent.findOne(filter)\<close>: the first matching document in natural order, or null.\<close>

definition findOne :: "string option \<Rightarrow> collection \<Rightarrow> url_event option" where
  "findOne h docs = find (matches h) docs"

section \<open>The lookup route\<close>

text \<open>What \<^verbatim>\<open>await\<close> on a promise gives: its value, or the error it rejected with.\<close>

datatype 'a awaited = Resolved 'a | Rejected string

text \<open>
  The three responses of \<^verbatim>\<open>POST /api/get-website\<close> (lines 204, 216 and 229):
  \<^verbatim>\<open>res.json({url, processTime, timestamp})\<close>,
  \<^verbatim>\<open>res.status(404).json({error, attempts, processTime})\<close> and
  \<^verbatim>\<open>res.status(500).json({error})\<close>.
\<close>

datatype response =
    Json200 string int int
  | Json404 string nat int
  | Json500 string

fun status :: "response \<Rightarrow> nat" where
  "status (Json200 u processTime ts) = 200"
| "status (Json404 err n processTime) = 404"
| "status (Json500 err) = 500"

text \<open>
  What the surroundings of the process contribute to one poll: the documents the store
  holds when the query runs, the error the query fails with (if it does), how long the
  query takes, and by how much the timer that started the poll fired late (a timer never
  fires early).
\<close>

record world =
  snapshot :: collection
  failure :: "string option"
  latency :: nat
  lateness :: nat

definition query :: "world \<Rightarrow> string option \<Rightarrow> url_event option awaited" where
  "query w h = (case failure w of Some err \<Rightarrow> Rejected err | None \<Rightarrow> Resolved (findOne h (snapshot w)))"

text \<open>
  The state of one request: the closure variable \<^verbatim>\<open>attempts\<close>, the responses written to
  \<^verbatim>\<open>res\<close>, the delays of the timers set and not yet fired, the rejections no handler
  took (they reach \<^verbatim>\<open>process.on('unhandledRejection')\<close>, which logs them), and the
  bookkeeping of the run: the clock, the number of store queries issued and the trace
  of the store queries and timer firings in the order they happened.
\<close>

datatype action = StoreQuery | TimerFired nat

record lookup =
  attempts :: nat
  sent :: "response list"
  pending :: "nat list"
  unhandled :: "string list"
  clock :: int
  queries :: nat
  trace :: "action list"

definition maxAttempts :: nat where
  "maxAttempts = 30"

text \<open>The message of line 217, \<^verbatim>\<open>'URL n\<close>\<open>\<dots>\<close>\<^verbatim>\<open>o encontrada'\<close>, in UTF-8.\<close>

definition not_found_message :: string where
  "not_found_message = ''URL n'' @ [CHR 0xC3, CHR 0xA3] @ ''o encontrada''"

text \<open>
  One invocation of \<^verbatim>\<open>checkUrl\<close> (lines 194--224). The query is awaited first; a
  rejection ends the invocation there, since the function has no handler of its own.
  Synchronous code takes no time: the clock moves while the query is awaited and while a
  timer runs. The console lines of the route (lines 188, 199, 212, 215) are left out.
\<close>

definition checkUrl :: "world \<Rightarrow> string option \<Rightarrow> int \<Rightarrow> lookup \<Rightarrow> lookup" where
  "checkUrl w txHash startTime s0 =
     (let s = s0\<lparr>queries := queries s0 + 1, clock := clock s0 + int (latency w),
                  trace := trace s0 @ [StoreQuery]\<rparr> in
      case query w txHash of
        Rejected err \<Rightarrow> s\<lparr>unhandled := unhandled s @ [err]\<rparr>
      | Resolved (Some event) \<Rightarrow>
          s\<lparr>sent := sent s @ [Json200 (url event) (clock s - startTime) (timestamp event)]\<rparr>
      | Resolved None \<Rightarrow>
          (let s1 = s\<lparr>attempts := attempts s + 1\<rparr> in
           if maxAttempts \<le> attempts s1
           then s1\<lparr>sent := sent s1 @ [Json404 not_found_message (attempts s1) (clock s1 - startTime)]\<rparr>
           else s1\<lparr>pending := pending s1 @ [1000]\<rparr>))"

text \<open>
  A timer set by line 223 comes due: it fires no earlier than its delay and calls
  \<^verbatim>\<open>checkUrl\<close> again. With no timer pending nothing happens.
\<close>

definition fire_timer :: "world \<Rightarrow> string option \<Rightarrow> int \<Rightarrow> lookup \<Rightarrow> lookup" where
  "fire_timer w txHash startTime s =
     (case pending s of
        [] \<Rightarrow> s
      | delay # rest \<Rightarrow>
          checkUrl w txHash startTime
            (s\<lparr>pending := rest,
               clock := clock s + int delay + int (lateness w),
               trace := trace s @ [TimerFired delay]\<rparr>))"

text \<open>
  The request runs until no timer is pending. The \<open>k\<close>-th store query of the request
  (from 0) meets \<open>env k\<close>.
\<close>

function run_timers :: "(nat \<Rightarrow> world) \<Rightarrow> string option \<Rightarrow> int \<Rightarrow> lookup \<Rightarrow> lookup" where
  "run_timers env txHash startTime s =
     (if pending s = [] then s
      else run_timers env txHash startTime (fire_timer (env (queries s)) txHash startTime s))"
  by pat_completeness auto
termination
proof (relation "measures [\<lambda>(env, h, t, s). maxAttempts - attempts s,
                           \<lambda>(env, h, t, s). length (pending s)]")
  show "wf (measures [\<lambda>(env, h, t, s). maxAttempts - attempts s,
                       \<lambda>(env, h, t, s). length (pending s)])"
    by simp
next
  fix env :: "nat \<Rightarrow> world" and txHash :: "string option" and startTime :: int
    and s :: lookup
  assume "pending s \<noteq> []"
  then obtain delay rest where p: "pending s = delay # rest"
    by (cases "pending s") auto
  show "((env, txHash, startTime, fire_timer (env (queries s)) txHash startTime s),
         (env, txHash, startTime, s))
        \<in> measures [\<lambda>(env, h, t, s). maxAttempts - attempts s,
                     \<lambda>(env, h, t, s). length (pending s)]"
    using p
    by (auto simp: fire_timer_def checkUrl_def Let_def split: awaited.splits option.splits)
qed

declare run_timers.simps [simp del]

text \<open>The body of a request: \<^verbatim>\<open>const { transactionHash } = req.body\<close> may find no field.\<close>

record request_body =
  body_transactionHash :: "string option"

text \<open>How a synchronous block ends: normally, or by throwing.\<close>

datatype 'a completion = Normal 'a | Thrown string

text \<open>
  Calling an \<^verbatim>\<open>async\<close> function runs it up to its first \<^verbatim>\<open>await\<close> and returns a promise;
  it never throws into the caller. A rejection of that promise is the callee's state
  (\<open>unhandled\<close>), not an exception of the caller.
\<close>

definition call_async :: "lookup \<Rightarrow> lookup completion" where
  "call_async s = Normal s"

text \<open>
  The route handler (lines 184--231): it reads the clock, takes the hash from the body,
  and in a \<^verbatim>\<open>try\<close> block sets \<^verbatim>\<open>attempts = 0\<close> and calls \<^verbatim>\<open>checkUrl()\<close> without awaiting
  it. The \<^verbatim>\<open>catch\<close> clause answers 500. The timers that \<^verbatim>\<open>checkUrl\<close> sets run after the
  handler has returned.
\<close>

definition new_lookup :: "int \<Rightarrow> lookup" where
  "new_lookup date_now =
     \<lparr>attempts = 0, sent = [], pending = [], unhandled = [],
      clock = date_now, queries = 0, trace = []\<rparr>"

definition get_website :: "(nat \<Rightarrow> world) \<Rightarrow> int \<Rightarrow> request_body \<Rightarrow> lookup" where
  "get_website env date_now body =
     (let startTime = date_now;
          txHash = body_transactionHash body;
          s = new_lookup date_now
      in case call_async (checkUrl (env 0) txHash startTime s) of
           Normal s' \<Rightarrow> run_timers env txHash startTime s'
         | Thrown err \<Rightarrow> s\<lparr>sent := sent s @ [Json500 err]\<rparr>)"

section \<open>The chain subscriber and the process\<close>

text \<open>
  What the \<^verbatim>\<open>'data'\<close> handler reads of a notification: \<^verbatim>\<open>event.returnValues.user\<close>,
  \<^verbatim>\<open>event.returnValues.url\<close> and \<^verbatim>\<open>event.transactionHash\<close>. The handler does not check
  that the notification has a transaction hash.
\<close>

record contract_event =
  returnValues_user :: string
  returnValues_url :: string
  event_transactionHash :: "string option"

text \<open>The lines the handlers below write to the console, by the place that writes them.\<close>

datatype log_line =
    WsConnecting
  | WsConnected
  | WsError string
  | WsEnded
  | MongoConnected
  | MongoError string
  | MongoDisconnected
  | SystemReady
  | InitFailed string
  | ListenerStarting
  | ListenerConnected string
  | EventReceived string
  | EventSaved "string option" string
  | SaveFailed string
  | EventChanged contract_event
  | ListenerError string
  | ListenerRestarting
  | ServerRunning
  | UnhandledLogged string
  | SigtermReceived
  | MongoClosed
  | CloseFailed string

text \<open>The body of \<^verbatim>\<open>GET /health\<close> (lines 235--240); the time stays in milliseconds.\<close>

record health =
  health_status :: string
  health_timestamp :: int
  mongoStatus :: string
  web3Status :: string

text \<open>
  The process: the \<^verbatim>\<open>UrlEvent\<close> collection, whether the callback of \<^verbatim>\<open>app.listen\<close> has
  run, the number of subscriptions open on the connection to the node, the delays of the
  restart timers set and not yet fired, the console, the lookups received (hash, start
  time, state), the health reports sent and the exit code once \<^verbatim>\<open>process.exit\<close> was
  called.
\<close>

record server =
  documents :: collection
  listening :: bool
  subscriptions :: nat
  restart_timers :: "nat list"
  console :: "log_line list"
  lookups :: "(string option \<times> int \<times> lookup) list"
  health_sent :: "health list"
  exit_code :: "nat option"

definition say :: "log_line list \<Rightarrow> server \<Rightarrow> server" where
  "say ls s = s\<lparr>console := console s @ ls\<rparr>"

text \<open>
  \<^verbatim>\<open>startEventListener\<close> (lines 146--181) opens one subscription and registers the
  four handlers on it. It closes no earlier subscription.
\<close>

definition startEventListener :: "server \<Rightarrow> server" where
  "startEventListener s = (say [ListenerStarting] s)\<lparr>subscriptions := subscriptions s + 1\<rparr>"

text \<open>
  The \<^verbatim>\<open>'data'\<close> handler (lines 155--172). \<open>save_error\<close> is the error \<^verbatim>\<open>save()\<close> rejects
  with, if it does; a rejected \<^verbatim>\<open>save()\<close> has stored nothing.
\<close>

definition on_data :: "contract_event \<Rightarrow> int \<Rightarrow> string option \<Rightarrow> server \<Rightarrow> server" where
  "on_data event date_now save_error s =
     (let s1 = say [EventReceived (returnValues_url event)] s;
          urlEvent = new_UrlEvent (returnValues_user event) (returnValues_url event)
                       (event_transactionHash event) date_now
      in case save_error of
           None \<Rightarrow>
             say [EventSaved (event_transactionHash event) (returnValues_url event)]
               (s1\<lparr>documents := save urlEvent (documents s1)\<rparr>)
         | Some error \<Rightarrow> say [SaveFailed error] s1)"

text \<open>The \<^verbatim>\<open>'error'\<close> handler of the subscription (lines 176--180).\<close>

definition on_error :: "string \<Rightarrow> server \<Rightarrow> server" where
  "on_error error s =
     (say [ListenerError error, ListenerRestarting] s)\<lparr>restart_timers := restart_timers s @ [5000]\<rparr>"

text \<open>
  The \<^verbatim>\<open>'error'\<close> event of the provider. The handler of lines 45--47 logs it. The request
  manager of web3 listens on the same provider and passes the error to every
  subscription it holds, so the \<^verbatim>\<open>'error'\<close> handler of each open subscription runs as
  well.
\<close>

primrec on_error_each :: "nat \<Rightarrow> string \<Rightarrow> server \<Rightarrow> server" where
  "on_error_each 0 error s = s"
| "on_error_each (Suc n) error s = on_error_each n error (on_error error s)"

definition provider_on_error :: "string \<Rightarrow> server \<Rightarrow> server" where
  "provider_on_error error s = on_error_each (subscriptions s) error (say [WsError error] s)"

text \<open>
  The \<^verbatim>\<open>'end'\<close> event of the provider: the connection was closed cleanly (after any other
  close the provider, set to reconnect, either reconnects by itself or reports an
  error). The handler of lines 49--51 logs it. No subscription is told: the subscriptions
  of the closed connection are gone without their \<^verbatim>\<open>'error'\<close> handler having run.
\<close>

definition provider_on_end :: "server \<Rightarrow> server" where
  "provider_on_end s = (say [WsEnded] s)\<lparr>subscriptions := 0\<rparr>"

text \<open>A restart timer comes due and calls \<^verbatim>\<open>startEventListener\<close>.\<close>

definition fire_restart :: "server \<Rightarrow> server" where
  "fire_restart s =
     (case restart_timers s of
        [] \<Rightarrow> s
      | delay # rest \<Rightarrow> startEventListener (s\<lparr>restart_timers := rest\<rparr>))"

text \<open>
  A request arrives at \<^verbatim>\<open>POST /api/get-website\<close>: the handler runs up to the end of the
  first \<^verbatim>\<open>checkUrl\<close>, whose query reads the collection as it is now.
\<close>

definition post_get_website :: "request_body \<Rightarrow> int \<Rightarrow> string option \<Rightarrow> nat \<Rightarrow> server \<Rightarrow> server" where
  "post_get_website body date_now query_error query_latency s =
     (let txHash = body_transactionHash body;
          w = \<lparr>snapshot = documents s, failure = query_error, latency = query_latency, lateness = 0\<rparr>
      in s\<lparr>lookups := lookups s @ [(txHash, date_now, checkUrl w txHash date_now (new_lookup date_now))]\<rparr>)"

text \<open>The pending timer of the \<open>i\<close>-th request comes due.\<close>

definition poll :: "nat \<Rightarrow> string option \<Rightarrow> nat \<Rightarrow> nat \<Rightarrow> server \<Rightarrow> server" where
  "poll i query_error query_latency late s =
     (if i < length (lookups s)
      then (case lookups s ! i of
              (txHash, startTime, l) \<Rightarrow>
                s\<lparr>lookups := (lookups s)[i :=
                     (txHash, startTime,
                      fire_timer \<lparr>snapshot = documents s, failure = query_error,
                                  latency = query_latency, lateness = late\<rparr> txHash startTime l)]\<rparr>)
      else s)"

text \<open>
  \<^verbatim>\<open>GET /health\<close>: the two readings are \<^verbatim>\<open>mongoose.connection.readyState\<close> and
  \<^verbatim>\<open>web3.currentProvider.connected\<close>.
\<close>

definition get_health :: "int \<Rightarrow> nat \<Rightarrow> bool \<Rightarrow> server \<Rightarrow> server" where
  "get_health date_now readyState connected s =
     s\<lparr>health_sent := health_sent s @
          [\<lparr>health_status = ''ok'', health_timestamp = date_now,
            mongoStatus = (if readyState = 1 then ''connected'' else ''disconnected''),
            web3Status = (if connected then ''connected'' else ''disconnected'')\<rparr>]\<rparr>"

text \<open>
  The \<^verbatim>\<open>SIGTERM\<close> handler (lines 254--264) closes the connection to the store and exits
  with 0, or with 1 when closing failed. While a successful \<^verbatim>\<open>close()\<close> is awaited, the
  \<^verbatim>\<open>'disconnected'\<close> handler of line 136 writes its line.
\<close>

definition on_sigterm :: "string option \<Rightarrow> server \<Rightarrow> server" where
  "on_sigterm close_error s =
     (case close_error of
        None \<Rightarrow> (say [SigtermReceived, MongoDisconnected, MongoClosed] s)\<lparr>exit_code := Some 0\<rparr>
      | Some err \<Rightarrow> (say [SigtermReceived, CloseFailed err] s)\<lparr>exit_code := Some 1\<rparr>)"

text \<open>
  Everything that can happen to the process, one constructor per callback the source
  registers, with what the callback receives from outside. The callback of \<^verbatim>\<open>app.listen\<close>
  runs once. An \<^verbatim>\<open>'error'\<close> event of a subscription needs a subscription to report it;
  the other handlers of a subscription are given as they run whenever they are called.
\<close>

datatype input =
    ProviderConnect
  | ProviderError string
  | ProviderEnd
  | MongooseConnected
  | MongooseError string
  | MongooseDisconnected
  | ConnectResolved
  | ConnectRejected string
  | Listening
  | SubConnected string
  | SubData contract_event int "string option"
  | SubChanged contract_event
  | SubError string
  | RestartTimer
  | PostGetWebsite request_body int "string option" nat
  | PollTimer nat "string option" nat nat
  | GetHealth int nat bool
  | UnhandledRejection string
  | Sigterm "string option"

fun step :: "input \<Rightarrow> server \<Rightarrow> server" where
  "step ProviderConnect s = say [WsConnected] s"
| "step (ProviderError err) s = provider_on_error err s"
| "step ProviderEnd s = provider_on_end s"
| "step MongooseConnected s = say [MongoConnected] s"
| "step (MongooseError err) s = say [MongoError err] s"
| "step MongooseDisconnected s = say [MongoDisconnected] s"
| "step ConnectResolved s = say [SystemReady] s"
| "step (ConnectRejected err) s = say [InitFailed err] s"
| "step Listening s =
     (if listening s then s else startEventListener (say [ServerRunning] (s\<lparr>listening := True\<rparr>)))"
| "step (SubConnected subscriptionId) s = say [ListenerConnected subscriptionId] s"
| "step (SubData event date_now save_error) s = on_data event date_now save_error s"
| "step (SubChanged event) s = say [EventChanged event] s"
| "step (SubError err) s = (if subscriptions s = 0 then s else on_error err s)"
| "step RestartTimer s = fire_restart s"
| "step (PostGetWebsite body date_now query_error query_latency) s =
     post_get_website body date_now query_error query_latency s"
| "step (PollTimer i query_error query_latency late) s = poll i query_error query_latency late s"
| "step (GetHealth date_now readyState connected) s = get_health date_now readyState connected s"
| "step (UnhandledRejection err) s = say [UnhandledLogged err] s"
| "step (Sigterm close_error) s = on_sigterm close_error s"

fun run :: "input list \<Rightarrow> server \<Rightarrow> server" where
  "run [] s = s"
| "run (e # es) s = run es (step e s)"

text \<open>
  The process after its module has loaded, before any callback ran:
  \<^verbatim>\<open>createWeb3WSProvider\<close> (lines 25--54) has announced the endpoint it connects to.
\<close>

definition boot :: server where
  "boot = \<lparr>documents = [], listening = False, subscriptions = 0, restart_timers = [],
           console = [WsConnecting], lookups = [], health_sent = [], exit_code = None\<rparr>"

section \<open>Notions the properties are stated in\<close>

text \<open>
  A poll misses: the query answers, and no document of the collection carries the hash.
\<close>

definition miss :: "world \<Rightarrow> string option \<Rightarrow> bool" where
  "miss w h \<longleftrightarrow> failure w = None \<and> (\<forall>doc \<in> set (snapshot w). \<not> matches h doc)"

text \<open>
  The time from the start of the request to the answer of its \<open>k\<close>-th query (from 0):
  every query takes its latency, and between two queries lie the 1000 ms of the timer
  and its lateness.
\<close>

fun elapsed :: "(nat \<Rightarrow> world) \<Rightarrow> nat \<Rightarrow> nat" where
  "elapsed env 0 = latency (env 0)"
| "elapsed env (Suc k) = elapsed env k + 1000 + lateness (env (Suc k)) + latency (env (Suc k))"

text \<open>The trace of a request up to its \<open>k\<close>-th query: queries with one timer between two.\<close>

fun poll_trace :: "nat \<Rightarrow> action list" where
  "poll_trace 0 = [StoreQuery]"
| "poll_trace (Suc k) = poll_trace k @ [TimerFired 1000, StoreQuery]"

text \<open>The request after its queries 0 to \<open>k\<close> missed, waiting for its next timer.\<close>

definition waiting :: "(nat \<Rightarrow> world) \<Rightarrow> int \<Rightarrow> nat \<Rightarrow> lookup" where
  "waiting env t0 k =
     \<lparr>attempts = Suc k, sent = [], pending = [1000], unhandled = [],
      clock = t0 + int (elapsed env k), queries = Suc k, trace = poll_trace k\<rparr>"

text \<open>The request once it has stopped, after \<open>k + 1\<close> queries.\<close>

definition stopped :: "(nat \<Rightarrow> world) \<Rightarrow> int \<Rightarrow> nat \<Rightarrow> nat \<Rightarrow> response list \<Rightarrow> string list \<Rightarrow> lookup" where
  "stopped env t0 k n rs errs =
     \<lparr>attempts = n, sent = rs, pending = [], unhandled = errs,
      clock = t0 + int (elapsed env k), queries = Suc k, trace = poll_trace k\<rparr>"


text \<open>An input that, if it is a notification, carries a transaction hash.\<close>

fun hashed :: "input \<Rightarrow> bool" where
  "hashed (SubData event date_now save_error) = (event_transactionHash event \<noteq> None)"
| "hashed e = True"

text \<open>The process without what it wrote to the console.\<close>

definition silenced :: "server \<Rightarrow> server" where
  "silenced s = s\<lparr>console := []\<rparr>"

section \<open>Concrete surroundings\<close>

text \<open>
  A store that answers every query and holds nothing; a document; a store in which the
  document appears after the third query; a store whose first query fails.
\<close>

definition quiet_env :: "nat \<Rightarrow> world" where
  "quiet_env k = \<lparr>snapshot = [], failure = None, latency = 2, lateness = 1\<rparr>"

definition example_doc :: url_event where
  "example_doc = new_UrlEvent ''0xUser'' ''https://example.com/page'' (Some ''0xABC'') 1700000000000"

definition arriving_env :: "nat \<Rightarrow> world" where
  "arriving_env k = \<lparr>snapshot = (if k < 3 then [] else [example_doc]), failure = None,
                      latency = 0, lateness = 0\<rparr>"

definition store_down :: world where
  "store_down = \<lparr>snapshot = [], failure = Some ''buffering timed out'', latency = 10000, lateness = 0\<rparr>"

definition failing_env :: "nat \<Rightarrow> world" where
  "failing_env k = (if k = 0 then store_down else quiet_env k)"

text \<open>
  A notification; the document of a second delivery of it, five seconds after the first;
  the process with its HTTP listener bound and its subscription acknowledged.
\<close>

definition example_event :: contract_event where
  "example_event = \<lparr>returnValues_user = ''0xUser'', returnValues_url = ''https://example.com/page'',
                     event_transactionHash = Some ''0xABC''\<rparr>"

definition subscribed :: server where
  "subscribed = run [Listening, SubConnected ''0x1''] boot"

definition redelivered_doc :: url_event where
  "redelivered_doc = new_UrlEvent ''0xUser'' ''https://example.com/page'' (Some ''0xABC'') 1700000005000"

text \<open>
  A notification without a transaction hash, the document stored for it, and a store
  that holds this document.
\<close>

definition hashless_event :: contract_event where
  "hashless_event = \<lparr>returnValues_user = ''0xUser'', returnValues_url = ''https://example.com/page'',
                      event_transactionHash = None\<rparr>"

definition hashless_doc :: url_event where
  "hashless_doc = new_UrlEvent ''0xUser'' ''https://example.com/page'' None 1700000000000"

definition orphan_env :: "nat \<Rightarrow> world" where
  "orphan_env k = \<lparr>snapshot = [hashless_doc], failure = None, latency = 0, lateness = 0\<rparr>"

section \<open>The polling loop, query by query\<close>

lemma findOne_None_iff: "findOne h docs = None \<longleftrightarrow> (\<forall>doc \<in> set docs. \<not> matches h doc)"
  by (auto simp: findOne_def find_None_iff)

lemma query_miss: "miss w h \<Longrightarrow> query w h = Resolved None"
  by (simp add: miss_def query_def findOne_None_iff)

lemma elapsed_lower: "1000 * k \<le> elapsed env k"
  by (induction k) auto

lemma elapsed_sum:
  "elapsed env k = 1000 * k + (\<Sum>j<Suc k. latency (env j)) + (\<Sum>j<k. lateness (env (Suc j)))"
  by (induction k) auto

lemma poll_trace_queries: "length (filter (\<lambda>a. a = StoreQuery) (poll_trace k)) = Suc k"
  by (induction k) auto

lemma poll_trace_timers: "filter (\<lambda>a. a \<noteq> StoreQuery) (poll_trace k) = replicate k (TimerFired 1000)"
  by (induction k) (auto simp: replicate_append_same)

lemma run_timers_idle: "pending s = [] \<Longrightarrow> run_timers env h t0 s = s"
  by (simp add: run_timers.simps)

lemma run_timers_stopped [simp]: "run_timers env h t0 (stopped env t0 k n rs errs) = stopped env t0 k n rs errs"
  by (simp add: run_timers_idle stopped_def)

lemma run_timers_waiting:
  "run_timers env h t0 (waiting env t0 k) =
   run_timers env h t0 (fire_timer (env (Suc k)) h t0 (waiting env t0 k))"
  by (subst run_timers.simps) (simp add: waiting_def)

lemma first_poll_miss:
  assumes "miss (env 0) h"
  shows "checkUrl (env 0) h t0 (new_lookup t0) = waiting env t0 0"
  using query_miss [OF assms] by (simp add: checkUrl_def waiting_def maxAttempts_def new_lookup_def)

lemma first_poll_hit:
  assumes "failure (env 0) = None" and "findOne h (snapshot (env 0)) = Some event"
  shows "checkUrl (env 0) h t0 (new_lookup t0) =
         stopped env t0 0 0 [Json200 (url event) (int (elapsed env 0)) (timestamp event)] []"
  using assms by (simp add: checkUrl_def stopped_def new_lookup_def query_def)

lemma first_poll_rejected:
  assumes "failure (env 0) = Some err"
  shows "checkUrl (env 0) h t0 (new_lookup t0) = stopped env t0 0 0 [] [err]"
  using assms by (simp add: checkUrl_def stopped_def new_lookup_def query_def)

lemma next_poll_miss:
  assumes "miss (env (Suc k)) h" and "Suc (Suc k) < maxAttempts"
  shows "fire_timer (env (Suc k)) h t0 (waiting env t0 k) = waiting env t0 (Suc k)"
  using query_miss [OF assms(1)] assms(2)
  by (simp add: fire_timer_def checkUrl_def waiting_def)

lemma last_poll_miss:
  assumes "miss (env (Suc k)) h" and "Suc (Suc k) = maxAttempts"
  shows "fire_timer (env (Suc k)) h t0 (waiting env t0 k) =
         stopped env t0 (Suc k) maxAttempts
           [Json404 not_found_message maxAttempts (int (elapsed env (Suc k)))] []"
  using query_miss [OF assms(1)] assms(2)
  by (simp add: fire_timer_def checkUrl_def waiting_def stopped_def)

lemma next_poll_hit:
  assumes "failure (env (Suc k)) = None" and "findOne h (snapshot (env (Suc k))) = Some event"
  shows "fire_timer (env (Suc k)) h t0 (waiting env t0 k) =
         stopped env t0 (Suc k) (Suc k)
           [Json200 (url event) (int (elapsed env (Suc k))) (timestamp event)] []"
  using assms
  by (simp add: fire_timer_def checkUrl_def waiting_def stopped_def query_def)

lemma next_poll_rejected:
  assumes "failure (env (Suc k)) = Some err"
  shows "fire_timer (env (Suc k)) h t0 (waiting env t0 k) = stopped env t0 (Suc k) (Suc k) [] [err]"
  using assms
  by (simp add: fire_timer_def checkUrl_def waiting_def stopped_def query_def)

lemma get_website_unfold:
  "get_website env t0 body = run_timers env (body_transactionHash body) t0
      (checkUrl (env 0) (body_transactionHash body) t0 (new_lookup t0))"
  by (simp add: get_website_def call_async_def Let_def)

lemma polls_missed:
  assumes "\<forall>j\<le>k. miss (env j) (body_transactionHash body)" and "Suc k < maxAttempts"
  shows "get_website env t0 body = run_timers env (body_transactionHash body) t0 (waiting env t0 k)"
  using assms
proof (induction k)
  case 0
  then have "miss (env 0) (body_transactionHash body)" by simp
  then show ?case
    by (simp add: get_website_unfold first_poll_miss)
next
  case (Suc k)
  then have "get_website env t0 body = run_timers env (body_transactionHash body) t0 (waiting env t0 k)"
    by simp
  also have "\<dots> = run_timers env (body_transactionHash body) t0 (waiting env t0 (Suc k))"
    using Suc.prems by (simp add: run_timers_waiting next_poll_miss)
  finally show ?case .
qed

text \<open>The three ways a request ends, by its first query that does not simply miss.\<close>

lemma all_polls_missed:
  assumes "\<forall>k<maxAttempts. miss (env k) (body_transactionHash body)"
  shows "get_website env t0 body =
         stopped env t0 (maxAttempts - 1) maxAttempts
           [Json404 not_found_message maxAttempts (int (elapsed env (maxAttempts - 1)))] []"
proof -
  have "get_website env t0 body = run_timers env (body_transactionHash body) t0 (waiting env t0 28)"
    using assms by (intro polls_missed) (auto simp: maxAttempts_def)
  also have "\<dots> = run_timers env (body_transactionHash body) t0
       (fire_timer (env (Suc 28)) (body_transactionHash body) t0 (waiting env t0 28))"
    by (rule run_timers_waiting)
  also have "fire_timer (env (Suc 28)) (body_transactionHash body) t0 (waiting env t0 28) =
     stopped env t0 (Suc 28) maxAttempts
           [Json404 not_found_message maxAttempts (int (elapsed env (Suc 28)))] []"
    using assms by (intro last_poll_miss) (auto simp: maxAttempts_def)
  finally show ?thesis by (simp add: maxAttempts_def)
qed

lemma first_hit:
  assumes "k < maxAttempts" and "\<forall>j<k. miss (env j) (body_transactionHash body)"
    and "failure (env k) = None"
    and "findOne (body_transactionHash body) (snapshot (env k)) = Some event"
  shows "get_website env t0 body =
         stopped env t0 k k [Json200 (url event) (int (elapsed env k)) (timestamp event)] []"
proof (cases k)
  case 0
  with assms show ?thesis by (simp add: get_website_unfold first_poll_hit)
next
  case (Suc j)
  with assms have "get_website env t0 body = run_timers env (body_transactionHash body) t0 (waiting env t0 j)"
    by (intro polls_missed) auto
  with Suc assms show ?thesis
    by (simp add: run_timers_waiting next_poll_hit)
qed

lemma first_rejection:
  assumes "k < maxAttempts" and "\<forall>j<k. miss (env j) (body_transactionHash body)"
    and "failure (env k) = Some err"
  shows "get_website env t0 body = stopped env t0 k k [] [err]"
proof (cases k)
  case 0
  with assms show ?thesis by (simp add: get_website_unfold first_poll_rejected)
next
  case (Suc j)
  with assms have "get_website env t0 body = run_timers env (body_transactionHash body) t0 (waiting env t0 j)"
    by (intro polls_missed) auto
  with Suc assms show ?thesis
    by (simp add: run_timers_waiting next_poll_rejected)
qed

section \<open>What every request keeps\<close>

lemma checkUrl_sent_pending:
  assumes "sent s = []" and "pending s = []"
  shows "length (sent (checkUrl w h t0 s)) + length (pending (checkUrl w h t0 s)) \<le> 1"
  using assms by (simp add: checkUrl_def Let_def split: awaited.splits option.splits)

lemma fire_timer_sent_pending:
  assumes "length (sent s) + length (pending s) \<le> 1"
  shows "length (sent (fire_timer w h t0 s)) + length (pending (fire_timer w h t0 s)) \<le> 1"
proof (cases "pending s")
  case Nil
  with assms show ?thesis by (simp add: fire_timer_def)
next
  case (Cons delay rest)
  with assms have "sent s = []" and "rest = []" by auto
  then have "length (sent (checkUrl w h t0 (s\<lparr>pending := rest,
               clock := clock s + int delay + int (lateness w),
               trace := trace s @ [TimerFired delay]\<rparr>))) +
             length (pending (checkUrl w h t0 (s\<lparr>pending := rest,
               clock := clock s + int delay + int (lateness w),
               trace := trace s @ [TimerFired delay]\<rparr>))) \<le> 1"
    by (intro checkUrl_sent_pending) simp_all
  with Cons show ?thesis
    by (simp add: fire_timer_def)
qed

lemma run_timers_sent:
  "length (sent s) + length (pending s) \<le> 1 \<Longrightarrow> length (sent (run_timers env h t0 s)) \<le> 1"
proof (induction env h t0 s rule: run_timers.induct)
  case (1 env h t0 s)
  show ?case
  proof (cases "pending s = []")
    case True
    with "1.prems" show ?thesis by (simp add: run_timers.simps)
  next
    case False
    have "length (sent (run_timers env h t0 (fire_timer (env (queries s)) h t0 s))) \<le> 1"
      by (rule "1.IH" [OF False fire_timer_sent_pending [OF "1.prems"]])
    with False show ?thesis by (subst run_timers.simps) simp
  qed
qed

lemma run_timers_pending: "pending (run_timers env h t0 s) = []"
proof (induction env h t0 s rule: run_timers.induct)
  case (1 env h t0 s)
  then show ?case by (subst run_timers.simps) simp
qed

lemma get_website_sent: "length (sent (get_website env t0 body)) \<le> 1"
  unfolding get_website_unfold
  by (intro run_timers_sent checkUrl_sent_pending) (simp_all add: new_lookup_def)

lemma checkUrl_no_500:
  assumes "\<forall>r \<in> set (sent s). status r \<noteq> 500"
  shows "\<forall>r \<in> set (sent (checkUrl w h t0 s)). status r \<noteq> 500"
  using assms by (simp add: checkUrl_def Let_def split: awaited.splits option.splits)

lemma fire_timer_no_500:
  assumes "\<forall>r \<in> set (sent s). status r \<noteq> 500"
  shows "\<forall>r \<in> set (sent (fire_timer w h t0 s)). status r \<noteq> 500"
proof (cases "pending s")
  case Nil
  with assms show ?thesis by (simp add: fire_timer_def)
next
  case (Cons delay rest)
  have "\<forall>r \<in> set (sent (checkUrl w h t0 (s\<lparr>pending := rest,
               clock := clock s + int delay + int (lateness w),
               trace := trace s @ [TimerFired delay]\<rparr>))). status r \<noteq> 500"
    using assms by (intro checkUrl_no_500) simp
  with Cons show ?thesis by (simp add: fire_timer_def)
qed

lemma run_timers_no_500:
  "\<forall>r \<in> set (sent s). status r \<noteq> 500 \<Longrightarrow> \<forall>r \<in> set (sent (run_timers env h t0 s)). status r \<noteq> 500"
proof (induction env h t0 s rule: run_timers.induct)
  case (1 env h t0 s)
  show ?case
  proof (cases "pending s = []")
    case True
    with "1.prems" show ?thesis by (simp add: run_timers.simps)
  next
    case False
    have "\<forall>r \<in> set (sent (run_timers env h t0 (fire_timer (env (queries s)) h t0 s))). status r \<noteq> 500"
      by (rule "1.IH" [OF False fire_timer_no_500 [OF "1.prems"]])
    with False show ?thesis by (subst run_timers.simps) simp
  qed
qed

lemma get_website_no_500: "\<forall>r \<in> set (sent (get_website env t0 body)). status r \<noteq> 500"
  unfolding get_website_unfold
  by (intro run_timers_no_500 checkUrl_no_500) (simp add: new_lookup_def)

lemma checkUrl_answered:
  assumes "failure w = None"
  shows "((\<exists>r. sent (checkUrl w h t0 s) = sent s @ [r] \<and> (status r = 200 \<or> status r = 404)) \<and>
          pending (checkUrl w h t0 s) = pending s) \<or>
         (sent (checkUrl w h t0 s) = sent s \<and> pending (checkUrl w h t0 s) = pending s @ [1000])"
  using assms by (simp add: checkUrl_def query_def Let_def split: option.splits)

section \<open>The process, input by input\<close>

lemmas handler_defs =
  say_def startEventListener_def on_data_def on_error_def provider_on_error_def
  provider_on_end_def fire_restart_def post_get_website_def poll_def get_health_def
  on_sigterm_def

lemma on_error_each_eq:
  "on_error_each n err s =
     s\<lparr>console := console s @ concat (replicate n [ListenerError err, ListenerRestarting]),
       restart_timers := restart_timers s @ replicate n 5000\<rparr>"
  by (induction n arbitrary: s) (simp_all add: on_error_def say_def)

lemma step_documents: "\<exists>new. documents (step e s) = documents s @ new"
  by (cases e)
    (auto simp: handler_defs on_error_each_eq save_def Let_def
       split: option.splits list.splits prod.splits)

lemma run_documents: "\<exists>new. documents (run es s) = documents s @ new"
proof (induction es arbitrary: s)
  case Nil
  show ?case by simp
next
  case (Cons e es)
  obtain new1 where "documents (step e s) = documents s @ new1"
    using step_documents by blast
  moreover obtain new2 where "documents (run es (step e s)) = documents (step e s) @ new2"
    using Cons.IH by blast
  ultimately show ?case by simp
qed

lemma step_silenced: "silenced (step e s) = silenced (step e (silenced s))"
  by (cases e)
    (auto simp: silenced_def handler_defs on_error_each_eq Let_def
       split: option.splits list.splits prod.splits)

lemma run_silenced: "silenced (run es s) = silenced (run es (silenced s))"
proof (induction es arbitrary: s)
  case Nil
  show ?case by (simp add: silenced_def)
next
  case (Cons e es)
  have "silenced (run (e # es) s) = silenced (run es (silenced (step e s)))"
    using Cons.IH [of "step e s"] by simp
  also have "\<dots> = silenced (run es (silenced (step e (silenced s))))"
    using step_silenced [of e s] by simp
  also have "\<dots> = silenced (run (e # es) (silenced s))"
    using Cons.IH [of "step e (silenced s)"] by simp
  finally show ?case .
qed



lemma step_hashed:
  assumes "\<forall>doc \<in> set (documents s). transactionHash doc \<noteq> None" and "hashed e"
  shows "\<forall>doc \<in> set (documents (step e s)). transactionHash doc \<noteq> None"
  using assms
  by (cases e)
    (auto simp: handler_defs on_error_each_eq save_def new_UrlEvent_def Let_def
       split: option.splits list.splits prod.splits)

lemma run_hashed:
  assumes "\<forall>doc \<in> set (documents s). transactionHash doc \<noteq> None" and "\<forall>e \<in> set es. hashed e"
  shows "\<forall>doc \<in> set (documents (run es s)). transactionHash doc \<noteq> None"
  using assms
proof (induction es arbitrary: s)
  case Nil
  then show ?case by simp
next
  case (Cons e es)
  have "\<forall>doc \<in> set (documents (step e s)). transactionHash doc \<noteq> None"
    using Cons.prems by (intro step_hashed) simp_all
  then show ?case
    using Cons.IH [of "step e s"] Cons.prems by simp
qed

lemma matches_iff: "matches h doc \<longleftrightarrow> transactionHash doc = h"
  by (cases h) auto

lemma findOne_present:
  assumes "doc \<in> set docs"
  shows "\<exists>d. findOne (transactionHash doc) docs = Some d \<and>
             transactionHash d = transactionHash doc \<and> d \<in> set docs"
proof (cases "findOne (transactionHash doc) docs")
  case None
  with assms show ?thesis by (auto simp: findOne_None_iff matches_iff)
next
  case (Some d)
  then show ?thesis by (auto simp: findOne_def find_Some_iff matches_iff)
qed

lemma findOne_unshared:
  assumes "doc \<in> set docs"
    and "\<forall>d \<in> set docs. transactionHash d = transactionHash doc \<longrightarrow> d = doc"
  shows "findOne (transactionHash doc) docs = Some doc"
  using findOne_present [OF assms(1)] assms(2) by auto

section \<open>The lookup route: properties\<close>

text \<open>
  C1. A request whose hash matches no stored document at any of its polls (each query
  answers, with no document) issues exactly \<open>maxAttempts\<close> = 30 store queries, with one
  1000 ms timer between two consecutive queries, and then answers 404 with the error
  message, \<open>attempts\<close> = 30 and the time elapsed since the request started; that time is
  at least \<open>(maxAttempts - 1) * 1000\<close> ms.
\<close>

theorem C1_no_match_answers_404_after_maxAttempts:
  assumes "\<forall>k<maxAttempts. miss (env k) (body_transactionHash body)"
  shows "(let r = get_website env t0 body in
          queries r = maxAttempts \<and>
          trace r = poll_trace (maxAttempts - 1) \<and>
          length (filter (\<lambda>a. a = StoreQuery) (trace r)) = maxAttempts \<and>
          filter (\<lambda>a. a \<noteq> StoreQuery) (trace r) = replicate (maxAttempts - 1) (TimerFired 1000) \<and>
          sent r = [Json404 not_found_message maxAttempts (clock r - t0)] \<and>
          map status (sent r) = [404] \<and>
          attempts r = maxAttempts \<and> maxAttempts = 30 \<and>
          pending r = [] \<and>
          clock r - t0 = int (elapsed env (maxAttempts - 1)) \<and>
          int ((maxAttempts - 1) * 1000) \<le> clock r - t0)"
proof -
  have "1000 * (maxAttempts - 1) \<le> elapsed env (maxAttempts - 1)"
    by (rule elapsed_lower)
  then have "int ((maxAttempts - 1) * 1000) \<le> int (elapsed env (maxAttempts - 1))"
    by (simp add: mult.commute)
  then show ?thesis
    using all_polls_missed [OF assms, of t0]
    by (simp add: stopped_def poll_trace_queries poll_trace_timers maxAttempts_def)
qed

theorem C1_witness:
  "sent (get_website quiet_env 0 \<lparr>body_transactionHash = Some ''0xDEF''\<rparr>) =
     [Json404 not_found_message 30 29089] \<and>
   queries (get_website quiet_env 0 \<lparr>body_transactionHash = Some ''0xDEF''\<rparr>) = 30"
  using C1_no_match_answers_404_after_maxAttempts
          [of quiet_env "\<lparr>body_transactionHash = Some ''0xDEF''\<rparr>" 0]
  by (simp add: miss_def quiet_env_def maxAttempts_def elapsed_sum Let_def)

text \<open>
  C2. When a poll of the request is the first to find a document with the hash (the
  earlier polls all answered with none, so the document may have been stored while the
  request was polling), that poll answers 200 with the document's url, the time elapsed
  since the request started and the document's \<open>timestamp\<close>, and it is the last: no
  timer is left and no further query is issued. The elapsed time is that of the polls
  made so far, \<open>k\<close> timers of 1000 ms with their lateness and \<open>k + 1\<close> query latencies,
  whatever is left of the deadline.
\<close>

theorem C2_first_matching_poll_answers_200:
  assumes "k < maxAttempts"
    and "\<forall>j<k. miss (env j) (body_transactionHash body)"
    and "failure (env k) = None"
    and "findOne (body_transactionHash body) (snapshot (env k)) = Some event"
  shows "(let r = get_website env t0 body in
          sent r = [Json200 (url event) (clock r - t0) (timestamp event)] \<and>
          map status (sent r) = [200] \<and>
          clock r - t0 = int (elapsed env k) \<and>
          elapsed env k =
            1000 * k + (\<Sum>j<Suc k. latency (env j)) + (\<Sum>j<k. lateness (env (Suc j))) \<and>
          pending r = [] \<and>
          queries r = Suc k \<and>
          trace r = poll_trace k \<and>
          attempts r = k \<and>
          matches (body_transactionHash body) event \<and> event \<in> set (snapshot (env k)))"
proof -
  have "find (matches (body_transactionHash body)) (snapshot (env k)) = Some event"
    using assms(4) by (simp add: findOne_def)
  then have "matches (body_transactionHash body) event" and "event \<in> set (snapshot (env k))"
    by (auto simp: find_Some_iff)
  then show ?thesis
    using first_hit [OF assms, of t0] elapsed_sum [of env k]
    by (simp add: stopped_def)
qed

theorem C2_witness:
  "sent (get_website arriving_env 0 \<lparr>body_transactionHash = Some ''0xABC''\<rparr>) =
     [Json200 ''https://example.com/page'' 3000 1700000000000] \<and>
   queries (get_website arriving_env 0 \<lparr>body_transactionHash = Some ''0xABC''\<rparr>) = 4 \<and>
   pending (get_website arriving_env 0 \<lparr>body_transactionHash = Some ''0xABC''\<rparr>) = []"
  using C2_first_matching_poll_answers_200
          [of 3 arriving_env "\<lparr>body_transactionHash = Some ''0xABC''\<rparr>" example_doc 0]
  by (simp add: miss_def arriving_env_def maxAttempts_def findOne_def example_doc_def
        new_UrlEvent_def Let_def)

text \<open>
  C3. The claim is that a failing store query is answered with 500. The code does
  otherwise: \<^verbatim>\<open>checkUrl()\<close> is called without \<^verbatim>\<open>await\<close>, and later from timers, so its
  rejection never reaches the \<^verbatim>\<open>catch\<close> clause of the handler. When the first query that
  does not simply miss is rejected, the request gets no response at all, no timer is
  left to produce one, and the rejection is left unhandled. No request is ever answered
  with 500.
\<close>

theorem C3_rejected_query_is_never_answered:
  assumes "k < maxAttempts"
    and "\<forall>j<k. miss (env j) (body_transactionHash body)"
    and "failure (env k) = Some err"
  shows "(let r = get_website env t0 body in
          sent r = [] \<and> pending r = [] \<and> unhandled r = [err] \<and> queries r = Suc k) \<and>
         (\<forall>r \<in> set (sent (get_website env' t0' body')). status r \<noteq> 500)"
  using first_rejection [OF assms, of t0] get_website_no_500 [of env' t0' body']
  by (simp add: stopped_def)

theorem C3_witness:
  "sent (get_website failing_env 0 \<lparr>body_transactionHash = Some ''0xABC''\<rparr>) = [] \<and>
   pending (get_website failing_env 0 \<lparr>body_transactionHash = Some ''0xABC''\<rparr>) = [] \<and>
   unhandled (get_website failing_env 0 \<lparr>body_transactionHash = Some ''0xABC''\<rparr>) =
     [''buffering timed out'']"
  using C3_rejected_query_is_never_answered
          [of 0 failing_env "\<lparr>body_transactionHash = Some ''0xABC''\<rparr>" "''buffering timed out''" 0]
  by (simp add: failing_env_def store_down_def maxAttempts_def Let_def)

text \<open>
  C4, as stated, fails: a notification without a transaction hash is stored as a
  document without one, and a request whose body has no \<open>transactionHash\<close> then finds
  that document at its first poll and is answered 200.
\<close>

theorem C4_counterexample:
  "documents (step (SubData hashless_event 1700000000000 None) subscribed) = [hashless_doc] \<and>
   sent (get_website orphan_env 0 \<lparr>body_transactionHash = None\<rparr>) =
     [Json200 ''https://example.com/page'' 0 1700000000000] \<and>
   queries (get_website orphan_env 0 \<lparr>body_transactionHash = None\<rparr>) = 1 \<and>
   attempts (get_website orphan_env 0 \<lparr>body_transactionHash = None\<rparr>) = 0"
  using first_hit [of 0 orphan_env "\<lparr>body_transactionHash = None\<rparr>" hashless_doc 0]
  by (simp add: orphan_env_def hashless_doc_def hashless_event_def new_UrlEvent_def findOne_def
        stopped_def maxAttempts_def subscribed_def boot_def handler_defs save_def)

text \<open>
  C4, amended. Take a request whose body has no \<open>transactionHash\<close>, a store that answers
  its queries, and polls at which every stored document has a transaction hash. Then no
  poll finds a document, the request uses up its 30 attempts and is answered 404 with
  \<open>attempts\<close> = 30, exactly as a request with a hash that no stored document carries.
  Every stored document has a transaction hash as long as every notification had one.
\<close>

theorem C4_absent_hash_exhausts_deadline:
  assumes "body_transactionHash body = None"
    and "\<forall>k<maxAttempts. failure (env k) = None \<and>
           (\<forall>doc \<in> set (snapshot (env k)). transactionHash doc \<noteq> None)"
  shows "(\<forall>k<maxAttempts. findOne (body_transactionHash body) (snapshot (env k)) = None) \<and>
         sent (get_website env t0 body) =
           [Json404 not_found_message 30 (int (elapsed env 29))] \<and>
         queries (get_website env t0 body) = 30 \<and>
         (\<forall>h. (\<forall>k<maxAttempts. \<forall>doc \<in> set (snapshot (env k)). transactionHash doc \<noteq> Some h) \<longrightarrow>
              get_website env t0 \<lparr>body_transactionHash = Some h\<rparr> = get_website env t0 body) \<and>
         ((\<forall>doc \<in> set (documents s). transactionHash doc \<noteq> None) \<and> (\<forall>e \<in> set es. hashed e) \<longrightarrow>
            (\<forall>doc \<in> set (documents (run es s)). transactionHash doc \<noteq> None))"
proof -
  have missed: "\<forall>k<maxAttempts. miss (env k) (body_transactionHash body)"
    using assms by (simp add: miss_def)
  then have never: "\<forall>k<maxAttempts. findOne (body_transactionHash body) (snapshot (env k)) = None"
    by (simp add: miss_def findOne_None_iff)
  have absent: "get_website env t0 body =
         stopped env t0 (maxAttempts - 1) maxAttempts
           [Json404 not_found_message maxAttempts (int (elapsed env (maxAttempts - 1)))] []"
    using missed by (rule all_polls_missed)
  have same: "get_website env t0 \<lparr>body_transactionHash = Some h\<rparr> = get_website env t0 body"
    if "\<forall>k<maxAttempts. \<forall>doc \<in> set (snapshot (env k)). transactionHash doc \<noteq> Some h" for h
  proof -
    have "\<forall>k<maxAttempts. miss (env k) (body_transactionHash \<lparr>body_transactionHash = Some h\<rparr>)"
      using that assms(2) by (simp add: miss_def)
    then have "get_website env t0 \<lparr>body_transactionHash = Some h\<rparr> =
         stopped env t0 (maxAttempts - 1) maxAttempts
           [Json404 not_found_message maxAttempts (int (elapsed env (maxAttempts - 1)))] []"
      by (rule all_polls_missed)
    with absent show ?thesis by simp
  qed
  have kept: "\<forall>doc \<in> set (documents (run es s)). transactionHash doc \<noteq> None"
    if "\<forall>doc \<in> set (documents s). transactionHash doc \<noteq> None" and "\<forall>e \<in> set es. hashed e"
    using that by (rule run_hashed)
  from never absent same kept show ?thesis
    by (simp add: stopped_def maxAttempts_def)
qed

theorem C4_witness:
  "sent (get_website arriving_env 0 \<lparr>body_transactionHash = None\<rparr>) =
     [Json404 not_found_message 30 29000] \<and>
   get_website arriving_env 0 \<lparr>body_transactionHash = Some ''0xDEF''\<rparr> =
     get_website arriving_env 0 \<lparr>body_transactionHash = None\<rparr> \<and>
   transactionHash (last (documents (run [SubData example_event 1700000000000 None] subscribed))) =
     Some ''0xABC''"
  using C4_absent_hash_exhausts_deadline
          [of "\<lparr>body_transactionHash = None\<rparr>" arriving_env 0 subscribed
              "[SubData example_event 1700000000000 None]"]
  by (simp add: arriving_env_def example_doc_def new_UrlEvent_def maxAttempts_def elapsed_sum
        example_event_def subscribed_def boot_def handler_defs save_def)

text \<open>
  C10, as stated, fails: an invocation of \<^verbatim>\<open>checkUrl\<close> whose store query is rejected
  neither sends a response nor sets a timer.
\<close>

theorem C10_counterexample:
  "sent (checkUrl store_down (Some ''0xABC'') 0 (new_lookup 0)) = [] \<and>
   pending (checkUrl store_down (Some ''0xABC'') 0 (new_lookup 0)) = [] \<and>
   \<not> ((length (sent (checkUrl store_down (Some ''0xABC'') 0 (new_lookup 0))) = 1 \<and>
        pending (checkUrl store_down (Some ''0xABC'') 0 (new_lookup 0)) = []) \<or>
       (sent (checkUrl store_down (Some ''0xABC'') 0 (new_lookup 0)) = [] \<and>
        length (pending (checkUrl store_down (Some ''0xABC'') 0 (new_lookup 0))) = 1))"
  by (simp add: checkUrl_def store_down_def new_lookup_def query_def)

text \<open>
  C10, amended. A request is sent at most one response, and when it has run no timer is
  left. An invocation of \<^verbatim>\<open>checkUrl\<close> whose store query answers either sends one response
  (200 or 404) and sets no timer, or sends none and sets exactly one timer of 1000 ms.
\<close>

theorem C10_at_most_one_response:
  "length (sent (get_website env t0 body)) \<le> 1 \<and>
   pending (get_website env t0 body) = [] \<and>
   (failure w = None \<longrightarrow>
      ((\<exists>r. sent (checkUrl w h startTime s) = sent s @ [r] \<and> (status r = 200 \<or> status r = 404)) \<and>
       pending (checkUrl w h startTime s) = pending s) \<or>
      (sent (checkUrl w h startTime s) = sent s \<and>
       pending (checkUrl w h startTime s) = pending s @ [1000]))"
  using get_website_sent [of env t0 body] checkUrl_answered [of w h startTime s]
  by (simp add: get_website_unfold run_timers_pending)

theorem C10_witness:
  "length (sent (get_website arriving_env 0 \<lparr>body_transactionHash = Some ''0xABC''\<rparr>)) \<le> 1 \<and>
   sent (checkUrl (quiet_env 0) (Some ''0xABC'') 0 (new_lookup 0)) = [] \<and>
   pending (checkUrl (quiet_env 0) (Some ''0xABC'') 0 (new_lookup 0)) = [1000]"
  using C10_at_most_one_response
          [of arriving_env 0 "\<lparr>body_transactionHash = Some ''0xABC''\<rparr>"
              "quiet_env 0" "Some ''0xABC''" 0 "new_lookup 0"]
  by (simp add: quiet_env_def new_lookup_def checkUrl_def query_def findOne_def maxAttempts_def)

section \<open>The subscriber and the store: properties\<close>




text \<open>
  C6. When the save of a notification fails, the handler catches the error and writes
  it to the console, and nothing else changes: the collection, the subscriptions and
  the timers are as before. Whatever happens afterwards, the process apart from its
  console is as if the notification had never arrived: nothing retries the save, and
  its document is lost. A later notification is saved as usual.
\<close>

theorem C6_failed_save_is_logged_and_dropped:
  "step (SubData event date_now (Some err)) s =
     say [EventReceived (returnValues_url event), SaveFailed err] s \<and>
   documents (step (SubData event date_now (Some err)) s) = documents s \<and>
   subscriptions (step (SubData event date_now (Some err)) s) = subscriptions s \<and>
   restart_timers (step (SubData event date_now (Some err)) s) = restart_timers s \<and>
   silenced (run es (step (SubData event date_now (Some err)) s)) = silenced (run es s) \<and>
   documents (run es (step (SubData event date_now (Some err)) s)) = documents (run es s) \<and>
   documents (step (SubData event' date_now' None) (step (SubData event date_now (Some err)) s)) =
     documents s @ [new_UrlEvent (returnValues_user event') (returnValues_url event')
                      (event_transactionHash event') date_now']"
proof -
  let ?s' = "step (SubData event date_now (Some err)) s"
  have same: "silenced ?s' = silenced s"
    by (simp add: silenced_def handler_defs)
  have "silenced (run es ?s') = silenced (run es (silenced ?s'))"
    by (rule run_silenced)
  also have "\<dots> = silenced (run es s)"
    using same run_silenced [of es s] by simp
  finally have later: "silenced (run es ?s') = silenced (run es s)" .
  then have "documents (silenced (run es ?s')) = documents (silenced (run es s))"
    by simp
  then have "documents (run es ?s') = documents (run es s)"
    by (simp add: silenced_def)
  with later show ?thesis
    by (simp add: handler_defs save_def)
qed

theorem C6_witness:
  "step (SubData example_event 1700000000000 (Some ''write failed'')) subscribed =
     say [EventReceived ''https://example.com/page'', SaveFailed ''write failed''] subscribed \<and>
   documents (run [SubData example_event 1700000000000 (Some ''write failed''),
                   SubData example_event 1700000005000 None] subscribed) = [redelivered_doc]"
  using C6_failed_save_is_logged_and_dropped
          [of example_event 1700000000000 "''write failed''" subscribed "[]" example_event 1700000005000]
  by (simp add: example_event_def redelivered_doc_def subscribed_def boot_def handler_defs)

text \<open>
  C7. The document stored for a notification has \<open>userAddress\<close> equal to the event's
  \<^verbatim>\<open>returnValues.user\<close>, \<open>url\<close> equal to its \<^verbatim>\<open>returnValues.url\<close>, \<open>transactionHash\<close> equal
  to its \<^verbatim>\<open>transactionHash\<close>, and \<open>timestamp\<close> equal to the clock reading when the
  document was built.
\<close>

theorem C7_persisted_record_fields:
  "documents (step (SubData event date_now None) s) =
     documents s @
       [\<lparr>userAddress = returnValues_user event, url = returnValues_url event,
         transactionHash = event_transactionHash event,
         timestamp = date_now, processedAt = date_now\<rparr>] \<and>
   userAddress (last (documents (step (SubData event date_now None) s))) = returnValues_user event \<and>
   url (last (documents (step (SubData event date_now None) s))) = returnValues_url event \<and>
   transactionHash (last (documents (step (SubData event date_now None) s))) =
     event_transactionHash event \<and>
   timestamp (last (documents (step (SubData event date_now None) s))) = date_now"
  by (simp add: handler_defs save_def new_UrlEvent_def)

theorem C7_witness:
  "documents (step (SubData example_event 1700000000000 None) subscribed) =
     [\<lparr>userAddress = ''0xUser'', url = ''https://example.com/page'', transactionHash = Some ''0xABC'',
       timestamp = 1700000000000, processedAt = 1700000000000\<rparr>]"
  using C7_persisted_record_fields [of example_event 1700000000000 subscribed]
  by (simp add: example_event_def subscribed_def boot_def handler_defs)

text \<open>
  C8, as stated, fails: the same notification delivered twice is stored as two
  documents with the same hash and different timestamps. One lookup returns one
  document, so whichever it returns, one of the two stored documents does not come
  back; here the lookup after the second save returns the first document.
\<close>

theorem C8_counterexample:
  "documents (run [SubData example_event 1700000000000 None,
                   SubData example_event 1700000005000 None] subscribed) =
     save redelivered_doc (save example_doc []) \<and>
   transactionHash example_doc = transactionHash redelivered_doc \<and>
   timestamp example_doc \<noteq> timestamp redelivered_doc \<and>
   findOne (transactionHash redelivered_doc) (save redelivered_doc (save example_doc [])) =
     Some example_doc \<and>
   findOne (transactionHash redelivered_doc) (save redelivered_doc (save example_doc [])) \<noteq>
     Some redelivered_doc"
  by (simp add: findOne_def save_def example_doc_def redelivered_doc_def new_UrlEvent_def
        example_event_def subscribed_def boot_def handler_defs)

text \<open>
  C8, amended. After a document is saved, whatever is saved before or later, \<^verbatim>\<open>findOne\<close>
  with its hash returns a stored document with that hash; it returns the saved document
  itself, all fields equal, when no other stored document shares the hash. The same
  holds for the document the \<^verbatim>\<open>'data'\<close> handler stores, after any further inputs.
\<close>

theorem C8_unshared_hash_round_trips:
  "(\<exists>d. findOne (transactionHash doc) (save doc docs @ later) = Some d \<and>
        transactionHash d = transactionHash doc \<and> d \<in> set (save doc docs @ later)) \<and>
   ((\<forall>d \<in> set (docs @ later). transactionHash d = transactionHash doc \<longrightarrow> d = doc) \<longrightarrow>
      findOne (transactionHash doc) (save doc docs @ later) = Some doc) \<and>
   ((\<forall>d \<in> set (documents (run es (step (SubData event date_now None) s))).
        transactionHash d = event_transactionHash event \<longrightarrow>
        d = new_UrlEvent (returnValues_user event) (returnValues_url event)
              (event_transactionHash event) date_now) \<longrightarrow>
      findOne (event_transactionHash event)
        (documents (run es (step (SubData event date_now None) s))) =
      Some (new_UrlEvent (returnValues_user event) (returnValues_url event)
              (event_transactionHash event) date_now))"
proof (intro conjI impI)
  have stored: "doc \<in> set (save doc docs @ later)"
    by (simp add: save_def)
  then show "\<exists>d. findOne (transactionHash doc) (save doc docs @ later) = Some d \<and>
        transactionHash d = transactionHash doc \<and> d \<in> set (save doc docs @ later)"
    by (rule findOne_present)
  assume "\<forall>d \<in> set (docs @ later). transactionHash d = transactionHash doc \<longrightarrow> d = doc"
  then have "\<forall>d \<in> set (save doc docs @ later). transactionHash d = transactionHash doc \<longrightarrow> d = doc"
    by (auto simp: save_def)
  with stored show "findOne (transactionHash doc) (save doc docs @ later) = Some doc"
    by (rule findOne_unshared)
next
  let ?doc = "new_UrlEvent (returnValues_user event) (returnValues_url event)
                (event_transactionHash event) date_now"
  let ?coll = "documents (run es (step (SubData event date_now None) s))"
  assume only: "\<forall>d \<in> set ?coll. transactionHash d = event_transactionHash event \<longrightarrow> d = ?doc"
  have hash: "transactionHash ?doc = event_transactionHash event"
    by (simp add: new_UrlEvent_def)
  obtain new where "?coll = documents (step (SubData event date_now None) s) @ new"
    using run_documents by blast
  then have "?coll = documents s @ ?doc # new"
    by (simp add: handler_defs save_def)
  then have stored: "?doc \<in> set ?coll"
    by simp
  have "\<forall>d \<in> set ?coll. transactionHash d = transactionHash ?doc \<longrightarrow> d = ?doc"
    using only unfolding hash .
  with stored have "findOne (transactionHash ?doc) ?coll = Some ?doc"
    by (rule findOne_unshared)
  then show "findOne (event_transactionHash event) ?coll = Some ?doc"
    unfolding hash .
qed

theorem C8_witness:
  "findOne (Some ''0xABC'') (save example_doc []) = Some example_doc \<and>
   findOne (Some ''0xABC'')
     (documents (run [GetHealth 1700000001000 1 True]
        (step (SubData example_event 1700000000000 None) subscribed))) = Some example_doc"
  using C8_unshared_hash_round_trips
          [of example_doc "[]" "[]" "[GetHealth 1700000001000 1 True]" example_event
              1700000000000 subscribed]
  by (simp add: example_doc_def new_UrlEvent_def example_event_def subscribed_def boot_def
        handler_defs save_def)

text \<open>
  C9. Whatever input the process receives (notifications, lookups and their polls,
  health checks, connection events, the termination signal), the collection only grows
  at its end: every document keeps its place and its fields.
\<close>

theorem C9_store_is_append_only:
  "prefix (documents s) (documents (step e s)) \<and>
   prefix (documents s) (documents (run es s)) \<and>
   (\<forall>i<length (documents s). documents (run es s) ! i = documents s ! i) \<and>
   length (documents s) \<le> length (documents (run es s))"
proof -
  obtain new1 where "documents (step e s) = documents s @ new1"
    using step_documents by blast
  moreover obtain new2 where "documents (run es s) = documents s @ new2"
    using run_documents by blast
  ultimately show ?thesis
    by (simp add: nth_append)
qed

theorem C9_witness:
  "prefix [example_doc]
     (documents (run [PostGetWebsite \<lparr>body_transactionHash = Some ''0xDEF''\<rparr> 1700000001000 None 3,
                      PollTimer 0 None 3 0,
                      GetHealth 1700000002000 1 True,
                      SubData example_event 1700000005000 None,
                      SubError ''connection not open'',
                      RestartTimer,
                      Sigterm None]
                 (step (SubData example_event 1700000000000 None) subscribed)))"
  using C9_store_is_append_only
          [of "step (SubData example_event 1700000000000 None) subscribed" ProviderEnd
              "[PostGetWebsite \<lparr>body_transactionHash = Some ''0xDEF''\<rparr> 1700000001000 None 3,
                PollTimer 0 None 3 0,
                GetHealth 1700000002000 1 True,
                SubData example_event 1700000005000 None,
                SubError ''connection not open'',
                RestartTimer,
                Sigterm None]"]
  by (simp add: example_doc_def new_UrlEvent_def example_event_def subscribed_def boot_def
        say_def startEventListener_def on_data_def save_def)

end
